theory Spec2Isabelle
  imports Complex_Main "HOL-Library.Multiset" "HOL-Library.Word" "HOL-Library.AList"
begin

section \<open>Data model (package unit)\<close>

text \<open>
  \<^verbatim>\<open>Dimension\<close>: seven exponents of Go type \<^verbatim>\<open>int\<close> and the string \<^verbatim>\<open>Extra\<close>. The code only
  compares the exponents for equality, so they are modelled as \<^typ>\<open>int\<close>. The fields
  \<^verbatim>\<open>L M T I K N J\<close> are written \<open>dL dM dT dI dK dN dJ\<close>.
\<close>

record Dimension =
  dL :: int
  dM :: int
  dT :: int
  dI :: int
  dK :: int
  dN :: int
  dJ :: int
  Extra :: string

text \<open>\<^verbatim>\<open>func (d Dimension) Equals(other Dimension) bool { return d == other }\<close>\<close>

definition Equals :: "Dimension \<Rightarrow> Dimension \<Rightarrow> bool" where
  "Equals d other = (d = other)"

text \<open>The zero value \<^verbatim>\<open>Dimension{}\<close>, which is also \<^verbatim>\<open>DimDimensionless\<close>.\<close>

definition DimDimensionless :: Dimension where
  "DimDimensionless = \<lparr>dL = 0, dM = 0, dT = 0, dI = 0, dK = 0, dN = 0, dJ = 0, Extra = []\<rparr>"

definition DimTime :: Dimension where
  "DimTime = DimDimensionless\<lparr>dT := 1\<rparr>"

definition DimLength :: Dimension where
  "DimLength = DimDimensionless\<lparr>dL := 1\<rparr>"

definition DimStorage :: Dimension where
  "DimStorage = DimDimensionless\<lparr>Extra := ''storage''\<rparr>"

text \<open>
  \<^verbatim>\<open>Unit\<close> and \<^verbatim>\<open>Prefix\<close>. The type \<open>'f\<close> stands for Go's \<^verbatim>\<open>float64\<close>; its operations are
  the fields of \<open>float64_ops\<close> below. The fields of \<^verbatim>\<open>Prefix\<close> are written \<open>PSymbol\<close>
  and \<open>PScale\<close>.
\<close>

record 'f Unit =
  Symbol :: string
  Dim :: Dimension
  Scale :: 'f

record 'f Prefix =
  PSymbol :: string
  PScale :: 'f

record SystemConfig =
  AllowMultiPart :: bool
  CaseInsensitive :: bool
  Separators :: string

text \<open>
  \<^verbatim>\<open>System\<close>: the Go maps are partial functions; the inner \<^verbatim>\<open>map[string]bool\<close> of
  \<^verbatim>\<open>unitPrefixes\<close> keeps its boolean values, since \<^verbatim>\<open>Resolve\<close> reads them.
\<close>

record 'f System =
  units :: "string \<rightharpoonup> 'f Unit"
  prefixes :: "'f Prefix list"
  Config :: SystemConfig
  unitPrefixes :: "string \<rightharpoonup> (string \<rightharpoonup> bool)"

text \<open>
  The operations of \<^verbatim>\<open>float64\<close> and of the standard library that the code calls. They are
  not code of the repository, so the model takes them as parameters:
  \<open>f_zero\<close>, \<open>f_one\<close> and \<open>f_epsilon\<close> are the constants \<^verbatim>\<open>0\<close>, \<^verbatim>\<open>1.0\<close> and \<^verbatim>\<open>1e-12\<close>;
  \<open>f_eq\<close>, \<open>f_le\<close>, \<open>f_gt\<close> are \<^verbatim>\<open>==\<close>, \<^verbatim>\<open><=\<close>, \<^verbatim>\<open>>\<close>; \<open>f_mul\<close> and \<open>f_sub\<close> are \<^verbatim>\<open>*\<close> and \<^verbatim>\<open>-\<close>;
  \<open>f_abs\<close> and \<open>f_round\<close> are \<^verbatim>\<open>math.Abs\<close> and \<^verbatim>\<open>math.Round\<close>; \<open>f_parse\<close> is
  \<^verbatim>\<open>strconv.ParseFloat(_, 64)\<close> with \<open>None\<close> for a non-nil error.
\<close>

record 'f float64_ops =
  f_zero :: 'f
  f_one :: 'f
  f_epsilon :: 'f
  f_eq :: "'f \<Rightarrow> 'f \<Rightarrow> bool"
  f_le :: "'f \<Rightarrow> 'f \<Rightarrow> bool"
  f_gt :: "'f \<Rightarrow> 'f \<Rightarrow> bool"
  f_mul :: "'f \<Rightarrow> 'f \<Rightarrow> 'f"
  f_sub :: "'f \<Rightarrow> 'f \<Rightarrow> 'f"
  f_abs :: "'f \<Rightarrow> 'f"
  f_round :: "'f \<Rightarrow> 'f"
  f_parse :: "string \<Rightarrow> 'f option"

text \<open>
  The errors of both packages, one constructor per \<^verbatim>\<open>fmt.Errorf\<close> / \<^verbatim>\<open>errors.New\<close> of the
  source, carrying the values that the message formats. \<open>NumberSyntax\<close> is the error
  returned by \<^verbatim>\<open>strconv.ParseFloat\<close>.
\<close>

datatype 'f error =
    PrefixConflict string
  | UnknownTargetUnit string
  | PrefixNotFound string
  | MultiPartNotAllowed string
  | InvalidNumber
  | NumberSyntax string
  | MissingUnit string
  | UnknownUnit string
  | MixedDimensions Dimension Dimension
  | PrecisionLoss 'f

section \<open>The unit registry (unit/system.go)\<close>

definition NewSystem :: "SystemConfig \<Rightarrow> 'f System" where
  "NewSystem config =
     \<lparr>units = Map.empty, prefixes = [], Config = config, unitPrefixes = Map.empty\<rparr>"

text \<open>
  \<^verbatim>\<open>normalizeKey\<close>; \<open>toLower\<close> is \<^verbatim>\<open>strings.ToLower\<close>, a parameter of the model.
\<close>

definition normalizeKey :: "(string \<Rightarrow> string) \<Rightarrow> 'f System \<Rightarrow> string \<Rightarrow> string" where
  "normalizeKey toLower s k = (if CaseInsensitive (Config s) then toLower k else k)"

definition Add ::
  "(string \<Rightarrow> string) \<Rightarrow> 'f System \<Rightarrow> string \<Rightarrow> 'f \<Rightarrow> Dimension \<Rightarrow> 'f System" where
  "Add toLower s symbol scale dimension =
     (let key = normalizeKey toLower s symbol
      in s\<lparr>units := (units s)(key \<mapsto> \<lparr>Symbol = symbol, Dim = dimension, Scale = scale\<rparr>)\<rparr>)"

text \<open>
  The second loop of \<^verbatim>\<open>AddPrefix\<close>: bind \<open>pKey\<close> to each target unit in turn, returning
  at the first unregistered one with the bindings made so far kept in the registry.
\<close>

fun bindTargets ::
  "(string \<Rightarrow> string) \<Rightarrow> string \<Rightarrow> 'f System \<Rightarrow> string list \<Rightarrow> 'f System \<times> 'f error option"
where
  "bindTargets toLower pKey s [] = (s, None)"
| "bindTargets toLower pKey s (uSymbol # targetUnits) =
     (let uKey = normalizeKey toLower s uSymbol
      in case units s uKey of
           None \<Rightarrow> (s, Some (UnknownTargetUnit uSymbol))
         | Some _ \<Rightarrow>
             (let set0 = (case unitPrefixes s uKey of None \<Rightarrow> Map.empty | Some m \<Rightarrow> m)
              in bindTargets toLower pKey
                   (s\<lparr>unitPrefixes := (unitPrefixes s)(uKey \<mapsto> set0(pKey \<mapsto> True))\<rparr>)
                   targetUnits))"

text \<open>
  \<^verbatim>\<open>AddPrefix\<close>. The result is the registry after the call together with the returned
  error. \<open>sortSlice\<close> is \<^verbatim>\<open>sort.Slice\<close> called with the comparison
  \<^verbatim>\<open>len(s.prefixes[i].Symbol) > len(s.prefixes[j].Symbol)\<close>; it is library code and not
  stable, so it is a parameter, with the contract \<open>sortSlice_ok\<close>. The first loop stops
  at the first prefix whose symbol is \<open>pKey\<close>, which is what \<^const>\<open>find\<close> returns.
\<close>

definition AddPrefix ::
  "'f float64_ops \<Rightarrow> (string \<Rightarrow> string) \<Rightarrow> ('f Prefix list \<Rightarrow> 'f Prefix list) \<Rightarrow>
   'f System \<Rightarrow> string \<Rightarrow> 'f \<Rightarrow> string list \<Rightarrow> 'f System \<times> 'f error option" where
  "AddPrefix fo toLower sortSlice s prefixSymbol scale targetUnits =
     (let pKey = normalizeKey toLower s prefixSymbol
      in case find (\<lambda>p. PSymbol p = pKey) (prefixes s) of
           Some p \<Rightarrow>
             if \<not> f_eq fo (PScale p) scale then (s, Some (PrefixConflict prefixSymbol))
             else bindTargets toLower pKey s targetUnits
         | None \<Rightarrow>
             bindTargets toLower pKey
               (s\<lparr>prefixes := sortSlice (prefixes s @ [\<lparr>PSymbol = pKey, PScale = scale\<rparr>])\<rparr>)
               targetUnits)"


text \<open>
  \<^verbatim>\<open>Clone\<close>, on registries as values: every map entry and every prefix is copied, which
  gives back the same value. The store model of the last section is where the copies are
  distinct objects.
\<close>

definition Clone :: "'f System \<Rightarrow> 'f System" where
  "Clone s =
     \<lparr>units = (\<lambda>k. units s k),
      prefixes = (if length (prefixes s) > 0 then prefixes s else []),
      Config = Config s,
      unitPrefixes = (\<lambda>uKey. case unitPrefixes s uKey of
                         None \<Rightarrow> None
                       | Some pSet \<Rightarrow> Some (\<lambda>pKey. pSet pKey))\<rparr>"

text \<open>The loop of \<^verbatim>\<open>OverwritePrefix\<close>: the first prefix named \<open>pKey\<close> gets the new scale.\<close>

fun overwriteFirst :: "string \<Rightarrow> 'f \<Rightarrow> 'f Prefix list \<Rightarrow> 'f Prefix list option" where
  "overwriteFirst pKey newScale [] = None"
| "overwriteFirst pKey newScale (p # ps) =
     (if PSymbol p = pKey then Some (p\<lparr>PScale := newScale\<rparr> # ps)
      else map_option ((#) p) (overwriteFirst pKey newScale ps))"

definition OverwritePrefix ::
  "(string \<Rightarrow> string) \<Rightarrow> 'f System \<Rightarrow> string \<Rightarrow> 'f \<Rightarrow> 'f System \<times> 'f error option" where
  "OverwritePrefix toLower s symbol newScale =
     (let pKey = normalizeKey toLower s symbol
      in case overwriteFirst pKey newScale (prefixes s) of
           Some ps \<Rightarrow> (s\<lparr>prefixes := ps\<rparr>, None)
         | None \<Rightarrow> (s, Some (PrefixNotFound symbol)))"

text \<open>
  \<^verbatim>\<open>Resolve\<close>. \<open>resolvePrefixes\<close> is the loop over \<^verbatim>\<open>s.prefixes\<close>; the slices
  \<^verbatim>\<open>lookupSymbol[:pLen]\<close> and \<^verbatim>\<open>lookupSymbol[pLen:]\<close> are \<^const>\<open>take\<close> and \<^const>\<open>drop\<close>,
  in range because of the length test before them. Reading a missing key of the
  whitelist gives \<^verbatim>\<open>false\<close>. The zero value \<^verbatim>\<open>Unit{}\<close> is \<open>zeroUnit\<close>.
\<close>

definition zeroUnit :: "'f float64_ops \<Rightarrow> 'f Unit" where
  "zeroUnit fo = \<lparr>Symbol = [], Dim = DimDimensionless, Scale = f_zero fo\<rparr>"

fun resolvePrefixes ::
  "'f float64_ops \<Rightarrow> 'f System \<Rightarrow> string \<Rightarrow> 'f Prefix list \<Rightarrow> 'f Unit \<times> 'f \<times> bool" where
  "resolvePrefixes fo s lookupSymbol [] = (zeroUnit fo, f_zero fo, False)"
| "resolvePrefixes fo s lookupSymbol (p # ps) =
     (let pLen = length (PSymbol p)
      in if length lookupSymbol > pLen \<and> take pLen lookupSymbol = PSymbol p then
           (let baseSymbol = drop pLen lookupSymbol
            in case units s baseSymbol of
                 Some u \<Rightarrow>
                   (case unitPrefixes s baseSymbol of
                      Some allowedPrefixes \<Rightarrow>
                        if allowedPrefixes (PSymbol p) = Some True then (u, PScale p, True)
                        else resolvePrefixes fo s lookupSymbol ps
                    | None \<Rightarrow> resolvePrefixes fo s lookupSymbol ps)
               | None \<Rightarrow> resolvePrefixes fo s lookupSymbol ps)
         else resolvePrefixes fo s lookupSymbol ps)"

definition Resolve ::
  "'f float64_ops \<Rightarrow> (string \<Rightarrow> string) \<Rightarrow> 'f System \<Rightarrow> string \<Rightarrow> 'f Unit \<times> 'f \<times> bool" where
  "Resolve fo toLower s symbol =
     (let lookupSymbol = normalizeKey toLower s symbol
      in case units s lookupSymbol of
           Some u \<Rightarrow> (u, f_one fo, True)
         | None \<Rightarrow> resolvePrefixes fo s lookupSymbol (prefixes s))"

section \<open>The parsing engine (package parser)\<close>

text \<open>
  Go strings are byte sequences and the scanners index them by byte, so a string is a
  \<^typ>\<open>string\<close> of 8-bit characters.

  \<^verbatim>\<open>strings.ContainsRune(separators, rune(c))\<close> for a byte \<open>c\<close>: the library searches for the
  byte itself when \<open>c < 0x80\<close>, and otherwise for the two-byte UTF-8 encoding of the code
  point \<open>U+0080 .. U+00FF\<close> that \<^verbatim>\<open>rune(c)\<close> is.
\<close>

fun hasSubstring :: "string \<Rightarrow> string \<Rightarrow> bool" where
  "hasSubstring pat [] = (pat = [])"
| "hasSubstring pat (x # xs) =
     (take (length pat) (x # xs) = pat \<or> hasSubstring pat xs)"

definition utf8_of_byte :: "char \<Rightarrow> string" where
  "utf8_of_byte c =
     [char_of (192 + (of_char c :: nat) div 64), char_of (128 + (of_char c :: nat) mod 64)]"

definition ContainsRune :: "string \<Rightarrow> char \<Rightarrow> bool" where
  "ContainsRune separators c =
     (if (of_char c :: nat) < 128 then c \<in> set separators
      else hasSubstring (utf8_of_byte c) separators)"

text \<open>The default separator set \<^verbatim>\<open>" \t\n\r,;|/"\<close>.\<close>

definition defaultSeparators :: string where
  "defaultSeparators =
     [CHR '' '', CHR 0x09, CHR 0x0A, CHR 0x0D, CHR '','', CHR '';'', CHR ''|'', CHR ''/'']"

definition separatorsOrDefault :: "string \<Rightarrow> string" where
  "separatorsOrDefault separators = (if separators = [] then defaultSeparators else separators)"

text \<open>\<^verbatim>\<open>c >= '0' && c <= '9'\<close>; \<^verbatim>\<open>unicode.IsDigit(rune(c))\<close> is the same test on a byte.\<close>

definition isDigit :: "char \<Rightarrow> bool" where
  "isDigit c = (48 \<le> (of_char c :: nat) \<and> (of_char c :: nat) \<le> 57)"

definition isNumberStart :: "char \<Rightarrow> bool" where
  "isNumberStart c = (isDigit c \<or> c = CHR ''.'' \<or> c = CHR ''+'' \<or> c = CHR ''-'')"

fun skipSeps :: "string \<Rightarrow> string \<Rightarrow> string" where
  "skipSeps separators [] = []"
| "skipSeps separators (c # s) =
     (if isNumberStart c then c # s
      else if ContainsRune separators c then skipSeps separators s
      else c # s)"

definition safeSkipSeps :: "string \<Rightarrow> string \<Rightarrow> string" where
  "safeSkipSeps s separators = skipSeps (separatorsOrDefault separators) s"

text \<open>
  The scanning loop of \<^verbatim>\<open>parseNumber\<close>: the first argument is \<^verbatim>\<open>s[end:]\<close>, the result is
  the final \<^verbatim>\<open>end\<close>.
\<close>

fun scanNumber :: "string \<Rightarrow> nat \<Rightarrow> bool \<Rightarrow> bool \<Rightarrow> bool \<Rightarrow> nat" where
  "scanNumber [] end allowSign allowDot allowE = end"
| "scanNumber (c # cs) end allowSign allowDot allowE =
     (if isDigit c then scanNumber cs (end + 1) False allowDot allowE
      else if c = CHR ''.'' \<and> allowDot then scanNumber cs (end + 1) False False allowE
      else if (c = CHR ''e'' \<or> c = CHR ''E'') \<and> allowE \<and> end > 0
        then scanNumber cs (end + 1) True False False
      else if (c = CHR ''+'' \<or> c = CHR ''-'') \<and> allowSign
        then scanNumber cs (end + 1) False allowDot allowE
      else end)"

definition parseNumber :: "'f float64_ops \<Rightarrow> string \<Rightarrow> 'f \<times> string \<times> 'f error option" where
  "parseNumber fo s =
     (let end = scanNumber s 0 True True True
      in if end = 0 then (f_zero fo, s, Some InvalidNumber)
         else case f_parse fo (take end s) of
                None \<Rightarrow> (f_zero fo, s, Some (NumberSyntax (take end s)))
              | Some val \<Rightarrow> (val, drop end s, None))"

text \<open>The loop of \<^verbatim>\<open>parseUnit\<close>, in the same way.\<close>

fun scanUnit :: "string \<Rightarrow> string \<Rightarrow> nat \<Rightarrow> nat" where
  "scanUnit separators [] end = end"
| "scanUnit separators (c # cs) end =
     (if isDigit c \<or> c = CHR ''.'' \<or> c = CHR ''+'' \<or> c = CHR ''-'' then end
      else if ContainsRune separators c then end
      else scanUnit separators cs (end + 1))"

definition parseUnit :: "string \<Rightarrow> string \<Rightarrow> string \<times> string" where
  "parseUnit s separators =
     (let end = scanUnit (separatorsOrDefault separators) s 0 in (take end s, drop end s))"

text \<open>
  The target type \<^verbatim>\<open>N\<close> of \<^verbatim>\<open>Parse[N]\<close>: its zero value, its addition, the conversion
  \<^verbatim>\<open>N(x)\<close> from \<^verbatim>\<open>float64\<close> and the conversion \<^verbatim>\<open>float64(n)\<close> back.
\<close>

record ('f, 'n) number_ops =
  n_zero :: 'n
  n_add :: "'n \<Rightarrow> 'n \<Rightarrow> 'n"
  n_of_float :: "'f \<Rightarrow> 'n"
  n_to_float :: "'n \<Rightarrow> 'f"

text \<open>
  Step 5 of the loop body: the part's value in the target type, or the precision-loss
  error.
\<close>

definition convertPart ::
  "'f float64_ops \<Rightarrow> ('f, 'n) number_ops \<Rightarrow> 'f \<Rightarrow> 'f error + 'n" where
  "convertPart fo no partVal =
     (let rounded = f_round fo partVal
      in if f_le fo (f_abs fo (f_sub fo rounded partVal)) (f_epsilon fo)
         then Inr (n_of_float no rounded)
         else (let castN = n_of_float no partVal
               in if f_gt fo (f_abs fo (f_sub fo (n_to_float no castN) partVal)) (f_epsilon fo)
                  then Inl (PrecisionLoss partVal)
                  else Inr castN))"

text \<open>
  One pass through the loop body after the multi-part check (steps 1 to 5 of the source):
  \<open>Inl\<close> is an early \<^verbatim>\<open>return\<close> with its three results, \<open>Inr\<close> carries the part's value,
  the detected dimension and the rest of the input before the closing separator skip.
\<close>

definition parsePart ::
  "'f float64_ops \<Rightarrow> ('f, 'n) number_ops \<Rightarrow> (string \<Rightarrow> string) \<Rightarrow> 'f System \<Rightarrow> string \<Rightarrow>
   Dimension \<Rightarrow> bool \<Rightarrow> string \<Rightarrow>
   ('n \<times> Dimension \<times> 'f error option) + ('n \<times> Dimension \<times> string)" where
  "parsePart fo no toLower sys orig detectedDim isDimSet s =
     (case parseNumber fo s of
        (val, nextStr, Some err) \<Rightarrow> Inl (n_zero no, DimDimensionless, Some err)
      | (val, nextStr, None) \<Rightarrow>
          (let s1 = safeSkipSeps nextStr (Separators (Config sys));
               (unitStr, s2) = parseUnit s1 (Separators (Config sys))
           in if unitStr = [] then Inl (n_zero no, DimDimensionless, Some (MissingUnit orig))
              else (case Resolve fo toLower sys unitStr of
                      (u, scaleRatio, found) \<Rightarrow>
                        if \<not> found
                        then Inl (n_zero no, DimDimensionless, Some (UnknownUnit unitStr))
                        else if isDimSet \<and> \<not> Equals detectedDim (Dim u)
                        then Inl (n_zero no, DimDimensionless,
                                  Some (MixedDimensions detectedDim (Dim u)))
                        else (let dimension = (if isDimSet then detectedDim else Dim u);
                                  partVal = f_mul fo (f_mul fo val scaleRatio) (Scale u)
                              in case convertPart fo no partVal of
                                   Inl err \<Rightarrow> Inl (n_zero no, dimension, Some err)
                                 | Inr partN \<Rightarrow> Inr (partN, dimension, s2)))))"

text \<open>The scanners never lengthen their input, and a scanned number is not empty.\<close>

lemma skipSeps_length: "length (skipSeps seps s) \<le> length s"
  by (induction s) auto

lemma safeSkipSeps_length: "length (safeSkipSeps s seps) \<le> length s"
  by (simp add: safeSkipSeps_def skipSeps_length)

lemma scanNumber_lower: "e \<le> scanNumber cs e a b c"
proof (induction cs arbitrary: e a b c)
  case Nil
  show ?case by simp
next
  case (Cons ch cs)
  have "\<And>a' b' c'. e \<le> scanNumber cs (e + 1) a' b' c'"
    using Cons.IH [of "e + 1"] by (simp add: Suc_leD)
  then show ?case by simp
qed

lemma scanNumber_upper: "scanNumber cs e a b c \<le> e + length cs"
proof (induction cs arbitrary: e a b c)
  case Nil
  show ?case by simp
next
  case (Cons ch cs)
  have "\<And>a' b' c'. scanNumber cs (e + 1) a' b' c' \<le> e + length (ch # cs)"
    using Cons.IH [of "e + 1"] by simp
  then show ?case by simp
qed

lemma parseNumber_shorter:
  assumes "parseNumber fo s = (v, r, None)"
  shows "length r < length s"
proof -
  let ?e = "scanNumber s 0 True True True"
  have le: "?e \<le> length s" using scanNumber_upper [of s 0 True True True] by simp
  from assms have pos: "0 < ?e"
    by (cases "?e = 0") (simp_all add: parseNumber_def Let_def)
  from assms pos have "r = drop ?e s"
    by (simp add: parseNumber_def Let_def split: option.splits)
  with le pos show ?thesis by simp
qed

lemma parseUnit_length: "parseUnit s seps = (u, r) \<Longrightarrow> length r \<le> length s"
  by (auto simp: parseUnit_def Let_def)

lemma parsePart_shorter:
  assumes "parsePart fo no lw sys orig dd ds s = Inr (pn, d, s2)"
  shows "length s2 < length s"
proof -
  obtain v r e where pn: "parseNumber fo s = (v, r, e)"
    by (cases "parseNumber fo s") auto
  obtain u r2 where pu: "parseUnit (safeSkipSeps r (Separators (Config sys))) (Separators (Config sys)) = (u, r2)"
    by (cases "parseUnit (safeSkipSeps r (Separators (Config sys))) (Separators (Config sys))") auto
  from assms pn have e: "e = None"
    by (cases e) (simp_all add: parsePart_def)
  from assms pn pu e have "s2 = r2"
    by (simp add: parsePart_def Let_def split: if_splits prod.splits sum.splits)
  moreover have "length r < length s"
    using pn e by (auto intro: parseNumber_shorter)
  moreover have "length r2 \<le> length (safeSkipSeps r (Separators (Config sys)))"
    using pu by (rule parseUnit_length)
  moreover have "length (safeSkipSeps r (Separators (Config sys))) \<le> length r"
    by (rule safeSkipSeps_length)
  ultimately show ?thesis by simp
qed

text \<open>
  The loop of \<^verbatim>\<open>Parse\<close>, with the loop variables \<^verbatim>\<open>total\<close> (written \<open>totalN\<close>),
  \<^verbatim>\<open>detectedDim\<close>, \<^verbatim>\<open>isDimSet\<close>, \<^verbatim>\<open>partsCount\<close> and \<^verbatim>\<open>s\<close> as arguments. Every pass consumes
  at least one byte, which is the termination argument.
\<close>

function parseLoop ::
  "'f float64_ops \<Rightarrow> ('f, 'n) number_ops \<Rightarrow> (string \<Rightarrow> string) \<Rightarrow> 'f System \<Rightarrow> string \<Rightarrow>
   'n \<Rightarrow> Dimension \<Rightarrow> bool \<Rightarrow> nat \<Rightarrow> string \<Rightarrow> 'n \<times> Dimension \<times> 'f error option" where
  "parseLoop fo no toLower sys orig totalN detectedDim isDimSet partsCount s =
     (if s = [] then (totalN, detectedDim, None)
      else if partsCount > 0 \<and> \<not> AllowMultiPart (Config sys)
        then (n_zero no, DimDimensionless, Some (MultiPartNotAllowed orig))
      else case parsePart fo no toLower sys orig detectedDim isDimSet s of
             Inl r \<Rightarrow> r
           | Inr (partN, dimension, s2) \<Rightarrow>
               parseLoop fo no toLower sys orig (n_add no totalN partN) dimension True (partsCount + 1)
                 (safeSkipSeps s2 (Separators (Config sys))))"
  by pat_completeness auto
termination
proof (relation "measure (\<lambda>(fo, no, toLower, sys, orig, totalN, detectedDim, isDimSet, partsCount, s). length s)")
  show "wf (measure (\<lambda>(fo :: 'f float64_ops, no :: ('f, 'n) number_ops, toLower :: string \<Rightarrow> string,
      sys :: 'f System, orig :: string, totalN :: 'n, detectedDim :: Dimension, isDimSet :: bool,
      partsCount :: nat, s :: string). length s))"
    by simp
next
  fix fo :: "'f float64_ops" and no :: "('f, 'n) number_ops" and toLower :: "string \<Rightarrow> string"
    and sys :: "'f System" and orig :: string and totalN :: 'n and detectedDim :: Dimension
    and isDimSet :: bool and partsCount :: nat and s :: string and x2 x y xa ya
  assume a: "parsePart fo no toLower sys orig detectedDim isDimSet s = Inr x2"
    "(x, y) = x2" "(xa, ya) = y"
  then have "parsePart fo no toLower sys orig detectedDim isDimSet s = Inr (x, xa, ya)" by simp
  then have "length ya < length s" by (rule parsePart_shorter)
  moreover have "length (safeSkipSeps ya (Separators (Config sys))) \<le> length ya"
    by (rule safeSkipSeps_length)
  ultimately show "((fo, no, toLower, sys, orig, n_add no totalN x, xa, True, partsCount + 1,
       safeSkipSeps ya (Separators (Config sys))),
      fo, no, toLower, sys, orig, totalN, detectedDim, isDimSet, partsCount, s)
    \<in> measure (\<lambda>(fo, no, toLower, sys, orig, totalN, detectedDim, isDimSet, partsCount, s). length s)"
    by simp
qed

declare parseLoop.simps [simp del]

definition Parse ::
  "'f float64_ops \<Rightarrow> ('f, 'n) number_ops \<Rightarrow> (string \<Rightarrow> string) \<Rightarrow> string \<Rightarrow> 'f System \<Rightarrow>
   'n \<times> Dimension \<times> 'f error option" where
  "Parse fo no toLower s sys =
     parseLoop fo no toLower sys s (n_zero no) DimDimensionless False 0
       (safeSkipSeps s (Separators (Config sys)))"

section \<open>Instances of the library parameters\<close>

text \<open>
  The closed theorems below run the model on concrete inputs, which needs concrete
  library operations. \<open>exact_float64\<close> computes on rationals without rounding. An
  IEEE-754 operation returns the exact result whenever that result is a \<^verbatim>\<open>float64\<close>, so
  on the inputs used below (\<open>0.5\<close>, small integers, \<open>1e19\<close>, and their products and
  differences) it returns what Go returns; \<open>f_epsilon\<close> is the \<^verbatim>\<open>float64\<close> nearest to
  \<open>1e-12\<close>. \<open>parseDecimal\<close> reads the decimal syntax of \<^verbatim>\<open>strconv.ParseFloat\<close> that
  \<^const>\<open>scanNumber\<close> can produce. The theorems about all inputs do not use these
  instances: they hold for every \<open>float64_ops\<close>.
\<close>

definition pow10 :: "int \<Rightarrow> rat" where
  "pow10 k = (if 0 \<le> k then 10 ^ nat k else 1 / 10 ^ nat (- k))"

fun digitsValue :: "string \<Rightarrow> nat \<Rightarrow> nat" where
  "digitsValue [] acc = acc"
| "digitsValue (c # cs) acc = digitsValue cs (acc * 10 + ((of_char c :: nat) - 48))"

definition splitSign :: "string \<Rightarrow> bool \<times> string" where
  "splitSign s =
     (case s of
        [] \<Rightarrow> (False, s)
      | c # r \<Rightarrow> if c = CHR ''+'' then (False, r) else if c = CHR ''-'' then (True, r)
                 else (False, s))"

definition parseExponent :: "string \<Rightarrow> int option" where
  "parseExponent s =
     (case s of
        [] \<Rightarrow> Some 0
      | c # r \<Rightarrow>
          if c = CHR ''e'' \<or> c = CHR ''E'' then
            (case splitSign r of
               (neg, ds) \<Rightarrow>
                 if ds = [] \<or> \<not> list_all isDigit ds then None
                 else Some (if neg then - int (digitsValue ds 0) else int (digitsValue ds 0)))
          else None)"

definition parseDecimal :: "string \<Rightarrow> rat option" where
  "parseDecimal s =
     (case splitSign s of
        (neg, s1) \<Rightarrow>
          (let ip = takeWhile isDigit s1;
               s2 = dropWhile isDigit s1;
               fp = (case s2 of [] \<Rightarrow> [] | c # r \<Rightarrow> if c = CHR ''.'' then takeWhile isDigit r else []);
               s3 = (case s2 of [] \<Rightarrow> [] | c # r \<Rightarrow> if c = CHR ''.'' then dropWhile isDigit r else s2)
           in if ip = [] \<and> fp = [] then None
              else case parseExponent s3 of
                     None \<Rightarrow> None
                   | Some ex \<Rightarrow>
                       Some ((if neg then - 1 else 1) * of_nat (digitsValue (ip @ fp) 0)
                             * pow10 (ex - int (length fp)))))"

definition roundAway :: "rat \<Rightarrow> rat" where
  "roundAway x = (if 0 \<le> x then of_int \<lfloor>x + 1 / 2\<rfloor> else - of_int \<lfloor>- x + 1 / 2\<rfloor>)"

definition exact_float64 :: "rat float64_ops" where
  "exact_float64 =
     \<lparr>f_zero = 0, f_one = 1, f_epsilon = 4951760157141521 / 2 ^ 92,
      f_eq = (=), f_le = (\<le>), f_gt = (\<lambda>a b. b < a),
      f_mul = (*), f_sub = (-), f_abs = abs, f_round = roundAway,
      f_parse = parseDecimal\<rparr>"

text \<open>
  Two target types: \<^verbatim>\<open>float64\<close> itself, and \<^verbatim>\<open>int64\<close> as a 64-bit word. The conversion of a
  \<^verbatim>\<open>float64\<close> to \<^verbatim>\<open>int64\<close> truncates toward zero; for a value outside the range of
  \<^verbatim>\<open>int64\<close> the Go specification leaves the result to the implementation, so it is the
  parameter \<open>outOfRange\<close>.
\<close>

definition float64_target :: "(rat, rat) number_ops" where
  "float64_target = \<lparr>n_zero = 0, n_add = (+), n_of_float = (\<lambda>x. x), n_to_float = (\<lambda>n. n)\<rparr>"

definition truncToInt :: "rat \<Rightarrow> int" where
  "truncToInt x = (if 0 \<le> x then \<lfloor>x\<rfloor> else - \<lfloor>- x\<rfloor>)"

definition int64_target :: "(rat \<Rightarrow> 64 word) \<Rightarrow> (rat, 64 word) number_ops" where
  "int64_target outOfRange =
     \<lparr>n_zero = 0, n_add = (+),
      n_of_float = (\<lambda>x. if - (2 ^ 63) \<le> truncToInt x \<and> truncToInt x < 2 ^ 63
                         then word_of_int (truncToInt x) else outOfRange x),
      n_to_float = (\<lambda>n. of_int (sint n))\<rparr>"

text \<open>
  \<^verbatim>\<open>strings.ToLower\<close> on ASCII strings, and the insertion sort that \<^verbatim>\<open>sort.Slice\<close> runs
  on a slice of fewer than twelve elements, as instances of \<open>toLower\<close> and \<open>sortSlice\<close>.
\<close>

definition asciiToLower :: "string \<Rightarrow> string" where
  "asciiToLower s =
     map (\<lambda>c. if 65 \<le> (of_char c :: nat) \<and> (of_char c :: nat) \<le> 90
                then char_of ((of_char c :: nat) + 32) else c) s"

fun insertDesc :: "'f Prefix \<Rightarrow> 'f Prefix list \<Rightarrow> 'f Prefix list" where
  "insertDesc x [] = [x]"
| "insertDesc x (y # ys) =
     (if length (PSymbol y) < length (PSymbol x) then x # y # ys else y # insertDesc x ys)"

definition insertionSort :: "'f Prefix list \<Rightarrow> 'f Prefix list" where
  "insertionSort ps = foldl (\<lambda>acc x. insertDesc x acc) [] ps"

section \<open>Vocabulary of the statements about the registry\<close>

text \<open>
  \<open>whitelisted\<close> is the whitelist test of \<^verbatim>\<open>Resolve\<close>
  (\<^verbatim>\<open>hasList && allowedPrefixes[p.Symbol]\<close>); \<open>prefixMatches\<close> is the whole condition under
  which the loop of \<^verbatim>\<open>Resolve\<close> returns at prefix \<open>p\<close>; \<open>prefixes_ordered\<close> is the
  invariant of the prefix list: descending symbol length, no symbol twice.
\<close>

definition whitelisted :: "'f System \<Rightarrow> string \<Rightarrow> string \<Rightarrow> bool" where
  "whitelisted s uKey pKey =
     (case unitPrefixes s uKey of None \<Rightarrow> False | Some allowed \<Rightarrow> allowed pKey = Some True)"

definition prefixMatches :: "'f System \<Rightarrow> string \<Rightarrow> 'f Prefix \<Rightarrow> bool" where
  "prefixMatches s lookupSymbol p =
     (let pLen = length (PSymbol p)
      in length lookupSymbol > pLen \<and> take pLen lookupSymbol = PSymbol p \<and>
         units s (drop pLen lookupSymbol) \<noteq> None \<and>
         whitelisted s (drop pLen lookupSymbol) (PSymbol p))"

definition prefixes_ordered :: "'f Prefix list \<Rightarrow> bool" where
  "prefixes_ordered ps =
     (sorted_wrt (\<lambda>a b. length (PSymbol b) \<le> length (PSymbol a)) ps \<and>
      distinct (map PSymbol ps))"


section \<open>Registries used for evaluation\<close>

definition caseSensitive :: SystemConfig where
  "caseSensitive = \<lparr>AllowMultiPart = True, CaseInsensitive = False, Separators = []\<rparr>"

text \<open>A registry with the units \<open>m\<close> and \<open>mm\<close> and the prefix \<open>m\<close> bound to \<open>m\<close>.\<close>

definition mmSystem :: "rat System" where
  "mmSystem =
     (let s0 = NewSystem caseSensitive;
          s1 = Add asciiToLower s0 ''m'' 1 DimLength;
          s2 = Add asciiToLower s1 ''mm'' (1 / 1000) DimLength
      in fst (AddPrefix exact_float64 asciiToLower insertionSort s2 ''m'' (1 / 1000) [''m'']))"

text \<open>
  The registry of \<^verbatim>\<open>TestSystem_Resolve\<close> (unit/system_test.go), and a registry with the
  prefixes \<open>k\<close> and \<open>ki\<close> bound to the unit \<open>b\<close>, registered in either order.
\<close>

definition DimMass :: Dimension where
  "DimMass = DimDimensionless\<lparr>dM := 1\<rparr>"

definition resolveTestSystem :: "rat System" where
  "resolveTestSystem =
     (let s0 = NewSystem caseSensitive;
          s1 = Add asciiToLower s0 ''m'' 1 DimLength;
          s2 = Add asciiToLower s1 ''g'' 1 DimMass;
          s3 = fst (AddPrefix exact_float64 asciiToLower insertionSort s2 ''k'' 1000 [''m'', ''g''])
      in fst (AddPrefix exact_float64 asciiToLower insertionSort s3 ''m'' (1 / 1000) [''m'']))"




definition trickySystem :: "rat System" where
  "trickySystem =
     (let s0 = NewSystem \<lparr>AllowMultiPart = True, CaseInsensitive = False, Separators = ''3 ''\<rparr>;
          s1 = Add asciiToLower s0 ''h'' 1 DimTime
      in Add asciiToLower s1 ''m'' 1 DimTime)"

definition restrictedSystem :: "rat System" where
  "restrictedSystem =
     Add asciiToLower
       (NewSystem \<lparr>AllowMultiPart = False, CaseInsensitive = False, Separators = []\<rparr>)
       ''B'' 1 DimStorage"

text \<open>A registry with the single unit \<open>u\<close> of scale \<open>1.0\<close>, for a given separator set.\<close>

definition sysU :: "string \<Rightarrow> rat System" where
  "sysU separators =
     Add asciiToLower
       (NewSystem \<lparr>AllowMultiPart = True, CaseInsensitive = False, Separators = separators\<rparr>)
       ''u'' 1 DimLength"

section \<open>Vocabulary of the statements about the conversion\<close>

text \<open>
  The two tests of the conversion step: \<open>nearInteger\<close> is
  \<^verbatim>\<open>math.Abs(rounded-partVal) <= epsilon\<close>, and \<open>roundTripDiffers\<close> is
  \<^verbatim>\<open>math.Abs(float64(castN)-partVal) > epsilon\<close> with \<^verbatim>\<open>castN = N(partVal)\<close>.
\<close>

definition nearInteger :: "'f float64_ops \<Rightarrow> 'f \<Rightarrow> bool" where
  "nearInteger fo partVal =
     f_le fo (f_abs fo (f_sub fo (f_round fo partVal) partVal)) (f_epsilon fo)"

definition roundTripDiffers :: "'f float64_ops \<Rightarrow> ('f, 'n) number_ops \<Rightarrow> 'f \<Rightarrow> bool" where
  "roundTripDiffers fo no partVal =
     f_gt fo (f_abs fo (f_sub fo (n_to_float no (n_of_float no partVal)) partVal)) (f_epsilon fo)"

section \<open>Lemmas about the registry\<close>

lemmas registry_eval = NewSystem_def Add_def AddPrefix_def normalizeKey_def Let_def
  insertionSort_def exact_float64_def caseSensitive_def Resolve_def zeroUnit_def

lemma mmSystem_fields:
  "units mmSystem ''mm'' = Some \<lparr>Symbol = ''mm'', Dim = DimLength, Scale = 1 / 1000\<rparr>"
  "units mmSystem ''m'' = Some \<lparr>Symbol = ''m'', Dim = DimLength, Scale = 1\<rparr>"
  "prefixes mmSystem = [\<lparr>PSymbol = ''m'', PScale = 1 / 1000\<rparr>]"
  "unitPrefixes mmSystem ''m'' = Some [''m'' \<mapsto> True]"
  "Config mmSystem = caseSensitive"
  by (simp_all add: mmSystem_def registry_eval)

lemma resolvePrefixes_find:
  "resolvePrefixes fo s L ps =
     (case find (prefixMatches s L) ps of
        None \<Rightarrow> (zeroUnit fo, f_zero fo, False)
      | Some p \<Rightarrow> (the (units s (drop (length (PSymbol p)) L)), PScale p, True))"
  by (induction ps)
     (auto simp: prefixMatches_def whitelisted_def Let_def split: option.splits)






lemma prefixMatches_same_length:
  assumes "prefixMatches s L p" "prefixMatches s L q" "length (PSymbol p) = length (PSymbol q)"
  shows "PSymbol p = PSymbol q"
  using assms by (auto simp: prefixMatches_def Let_def)

lemma find_longest_match:
  assumes inv: "prefixes_ordered ps" and p: "p \<in> set ps" and m: "prefixMatches s L p"
    and longest: "\<forall>q\<in>set ps. prefixMatches s L q \<longrightarrow> length (PSymbol q) \<le> length (PSymbol p)"
  shows "find (prefixMatches s L) ps = Some p"
  using inv p longest
proof (induction ps)
  case Nil
  then show ?case by simp
next
  case (Cons x xs)
  show ?case
  proof (cases "prefixMatches s L x")
    case False
    with Cons m show ?thesis by (auto simp: prefixes_ordered_def)
  next
    case True
    have "x = p"
    proof (rule ccontr)
      assume ne: "x \<noteq> p"
      with Cons.prems have pin: "p \<in> set xs" by simp
      with Cons.prems have "length (PSymbol p) \<le> length (PSymbol x)"
        by (auto simp: prefixes_ordered_def)
      moreover from Cons.prems True have "length (PSymbol x) \<le> length (PSymbol p)" by simp
      ultimately have "PSymbol p = PSymbol x"
        using prefixMatches_same_length [OF m True] by simp
      with pin have "PSymbol x \<in> PSymbol ` set xs" by (metis imageI)
      with Cons.prems show False by (simp add: prefixes_ordered_def)
    qed
    with True show ?thesis by simp
  qed
qed





lemma resolveTestSystem_fields:
  "units resolveTestSystem =
     [''m'' \<mapsto> \<lparr>Symbol = ''m'', Dim = DimLength, Scale = 1\<rparr>,
      ''g'' \<mapsto> \<lparr>Symbol = ''g'', Dim = DimMass, Scale = 1\<rparr>]"
  "prefixes resolveTestSystem =
     [\<lparr>PSymbol = ''k'', PScale = 1000\<rparr>, \<lparr>PSymbol = ''m'', PScale = 1 / 1000\<rparr>]"
  "unitPrefixes resolveTestSystem =
     [''m'' \<mapsto> [''k'' \<mapsto> True, ''m'' \<mapsto> True], ''g'' \<mapsto> [''k'' \<mapsto> True]]"
  "Config resolveTestSystem = caseSensitive"
  by (simp_all add: resolveTestSystem_def registry_eval fun_upd_twist)


section \<open>Lemmas about the parser\<close>

lemma floor_rat_numeral_div: "\<lfloor>numeral a / numeral b :: rat\<rfloor> = numeral a div numeral b"
  by (metis floor_divide_of_int_eq of_int_numeral)

lemma floor_rat_one_div: "\<lfloor>1 / numeral b :: rat\<rfloor> = 1 div numeral b"
  by (metis floor_divide_of_int_eq of_int_1 of_int_numeral)

lemmas parse_eval = floor_rat_numeral_div floor_rat_one_div exact_float64_def float64_target_def int64_target_def parseDecimal_def
  parseExponent_def splitSign_def pow10_def roundAway_def truncToInt_def
  Parse_def parseLoop.simps parsePart_def convertPart_def parseNumber_def parseUnit_def
  safeSkipSeps_def separatorsOrDefault_def defaultSeparators_def isDigit_def isNumberStart_def
  ContainsRune_def Equals_def

lemma skipSeps_all_separators:
  "\<forall>c\<in>set s. \<not> isNumberStart c \<and> ContainsRune seps c \<Longrightarrow> skipSeps seps s = []"
  by (induction s) simp_all

lemma Parse_skip_empty:
  "safeSkipSeps s (Separators (Config sys)) = [] \<Longrightarrow>
   Parse fo no toLower s sys = (n_zero no, DimDimensionless, None)"
  by (simp add: Parse_def parseLoop.simps)

lemma trickySystem_fields:
  "Config trickySystem = \<lparr>AllowMultiPart = True, CaseInsensitive = False, Separators = ''3 ''\<rparr>"
  "units trickySystem = [''h'' \<mapsto> \<lparr>Symbol = ''h'', Dim = DimTime, Scale = 1\<rparr>,
                         ''m'' \<mapsto> \<lparr>Symbol = ''m'', Dim = DimTime, Scale = 1\<rparr>]"
  "prefixes trickySystem = []"
  by (simp_all add: trickySystem_def registry_eval)

lemma parsePart_resolved:
  assumes "parseNumber fo s = (val, rest, None)"
    and "parseUnit (safeSkipSeps rest (Separators (Config sys))) (Separators (Config sys))
           = (unitStr, s2)"
    and "unitStr \<noteq> []"
    and "Resolve fo toLower sys unitStr = (u, scaleRatio, True)"
  shows "parsePart fo no toLower sys orig detectedDim isDimSet s =
     (if isDimSet \<and> \<not> Equals detectedDim (Dim u)
      then Inl (n_zero no, DimDimensionless, Some (MixedDimensions detectedDim (Dim u)))
      else case convertPart fo no (f_mul fo (f_mul fo val scaleRatio) (Scale u)) of
             Inl err \<Rightarrow> Inl (n_zero no, if isDimSet then detectedDim else Dim u, Some err)
           | Inr partN \<Rightarrow> Inr (partN, if isDimSet then detectedDim else Dim u, s2))"
  using assms by (simp add: parsePart_def Let_def)

lemma parsePart_nonempty:
  assumes "parsePart fo no toLower sys orig detectedDim isDimSet s = Inr (partN, d, s2)"
  shows "s \<noteq> []"
  using parsePart_shorter [OF assms] by auto

lemma restrictedSystem_fields:
  "Config restrictedSystem = \<lparr>AllowMultiPart = False, CaseInsensitive = False, Separators = []\<rparr>"
  "units restrictedSystem = [''B'' \<mapsto> \<lparr>Symbol = ''B'', Dim = DimStorage, Scale = 1\<rparr>]"
  "prefixes restrictedSystem = []"
  by (simp_all add: restrictedSystem_def registry_eval)

lemma restricted_first_part:
  "parsePart exact_float64 float64_target asciiToLower restrictedSystem ''1B2x''
     DimDimensionless False (safeSkipSeps ''1B2x'' (Separators (Config restrictedSystem)))
     = Inr (1, DimStorage, ''2x'')"
  by (simp add: restrictedSystem_fields parse_eval Resolve_def normalizeKey_def)


lemma parseLoop_step:
  assumes "s \<noteq> []" and "partsCount = 0 \<or> AllowMultiPart (Config sys)"
  shows "parseLoop fo no toLower sys orig totalN detectedDim isDimSet partsCount s =
     (case parsePart fo no toLower sys orig detectedDim isDimSet s of
        Inl r \<Rightarrow> r
      | Inr (partN, dimension, s2) \<Rightarrow>
          parseLoop fo no toLower sys orig (n_add no totalN partN) dimension True (partsCount + 1)
            (safeSkipSeps s2 (Separators (Config sys))))"
  using assms by (subst parseLoop.simps) auto











lemma convertPart_cases:
  "convertPart fo no partVal =
     (if nearInteger fo partVal then Inr (n_of_float no (f_round fo partVal))
      else if roundTripDiffers fo no partVal then Inl (PrecisionLoss partVal)
      else Inr (n_of_float no partVal))"
  by (simp add: convertPart_def nearInteger_def roundTripDiffers_def Let_def)

lemma sysU_fields:
  "Config (sysU seps) = \<lparr>AllowMultiPart = True, CaseInsensitive = False, Separators = seps\<rparr>"
  "units (sysU seps) = [''u'' \<mapsto> \<lparr>Symbol = ''u'', Dim = DimLength, Scale = 1\<rparr>]"
  "prefixes (sysU seps) = []"
  by (simp_all add: sysU_def registry_eval)

lemma Parse_single_part:
  assumes p: "parsePart fo no toLower sys input DimDimensionless False
                (safeSkipSeps input (Separators (Config sys))) = Inr (partN, d, s2)"
    and e: "safeSkipSeps s2 (Separators (Config sys)) = []"
  shows "Parse fo no toLower input sys = (n_add no (n_zero no) partN, d, None)"
proof -
  have ne: "safeSkipSeps input (Separators (Config sys)) \<noteq> []"
    using p by (rule parsePart_nonempty)
  have "Parse fo no toLower input sys =
      parseLoop fo no toLower sys input (n_add no (n_zero no) partN) d True 1 []"
    using p e ne by (simp add: Parse_def parseLoop_step)
  then show ?thesis by (simp add: parseLoop.simps [of _ _ _ _ _ _ _ _ _ "[]"])
qed


lemma big_part:
  "parseNumber exact_float64 ''1e19u'' = (10 ^ 19, ''u'', None)"
  "parseUnit (safeSkipSeps ''u'' (Separators (Config (sysU [])))) (Separators (Config (sysU [])))
     = (''u'', [])"
  "Resolve exact_float64 asciiToLower (sysU []) ''u''
     = (\<lparr>Symbol = ''u'', Dim = DimLength, Scale = 1\<rparr>, 1, True)"
  "nearInteger exact_float64 (10 ^ 19)"
  by (simp_all add: sysU_fields parse_eval Resolve_def normalizeKey_def nearInteger_def)

lemma big_out_of_range:
  "n_of_float (int64_target (\<lambda>x. - (2 ^ 63))) (10 ^ 19) = - (2 ^ 63)"
  "roundTripDiffers exact_float64 (int64_target (\<lambda>x. - (2 ^ 63))) (10 ^ 19)"
  by (simp_all add: int64_target_def truncToInt_def roundTripDiffers_def exact_float64_def)














section \<open>Resolution\<close>

text \<open>
  C2. Exact-match priority: whenever the normalized symbol is the key of a registered
  unit, \<open>Resolve\<close> returns that unit with prefix scale \<open>1.0\<close> and \<open>found = true\<close>,
  whatever prefixes the registry holds.
\<close>

theorem Resolve_exact_match:
  "units s (normalizeKey toLower s symbol) = Some u \<Longrightarrow>
   Resolve fo toLower s symbol = (u, f_one fo, True)"
  by (simp add: Resolve_def)

text \<open>
  At \<open>mmSystem\<close>, where the prefix \<open>m\<close> and the unit \<open>m\<close> would also spell \<open>mm\<close>.
\<close>

theorem Resolve_exact_match_witness:
  "units mmSystem (normalizeKey asciiToLower mmSystem ''mm'')
     = Some \<lparr>Symbol = ''mm'', Dim = DimLength, Scale = 1 / 1000\<rparr> \<and>
   Resolve exact_float64 asciiToLower mmSystem ''mm''
     = (\<lparr>Symbol = ''mm'', Dim = DimLength, Scale = 1 / 1000\<rparr>, 1, True)"
  using Resolve_exact_match [of mmSystem asciiToLower "''mm''"
      "\<lparr>Symbol = ''mm'', Dim = DimLength, Scale = 1 / 1000\<rparr>" exact_float64]
  by (simp add: mmSystem_fields normalizeKey_def caseSensitive_def exact_float64_def)

text \<open>
  C3 (as amended). Whitelist-gated decomposition. Let the prefix \<open>p\<close> and the unit with
  key \<open>uKey\<close> be registered, let the normalized symbol be \<open>p\<close>'s symbol followed by
  \<open>uKey\<close>, and let that string not be a unit key itself. If \<open>p\<close> is whitelisted for the
  unit, \<open>uKey\<close> is not empty, the prefix list is ordered and no longer registered prefix
  has a whitelisted decomposition of the string, \<open>Resolve\<close> returns the unit with \<open>p\<close>'s
  scale. If \<open>p\<close> is not whitelisted for the unit and no other prefix has a whitelisted
  decomposition of the string, \<open>Resolve\<close> returns not-found.
\<close>

theorem Resolve_prefix_unit:
  assumes L: "normalizeKey toLower s symbol = PSymbol p @ uKey"
    and p: "p \<in> set (prefixes s)"
    and u: "units s uKey = Some u"
    and nu: "units s (PSymbol p @ uKey) = None"
  shows "(prefixes_ordered (prefixes s) \<and> uKey \<noteq> [] \<and> whitelisted s uKey (PSymbol p) \<and>
          (\<forall>q\<in>set (prefixes s). length (PSymbol p) < length (PSymbol q) \<longrightarrow>
               \<not> prefixMatches s (PSymbol p @ uKey) q)
          \<longrightarrow> Resolve fo toLower s symbol = (u, PScale p, True)) \<and>
         (\<not> whitelisted s uKey (PSymbol p) \<and>
          (\<forall>q\<in>set (prefixes s). PSymbol q \<noteq> PSymbol p \<longrightarrow>
               \<not> prefixMatches s (PSymbol p @ uKey) q)
          \<longrightarrow> Resolve fo toLower s symbol = (zeroUnit fo, f_zero fo, False))"
proof (intro conjI impI)
  assume a: "prefixes_ordered (prefixes s) \<and> uKey \<noteq> [] \<and> whitelisted s uKey (PSymbol p) \<and>
          (\<forall>q\<in>set (prefixes s). length (PSymbol p) < length (PSymbol q) \<longrightarrow>
               \<not> prefixMatches s (PSymbol p @ uKey) q)"
  then have m: "prefixMatches s (PSymbol p @ uKey) p"
    using u by (simp add: prefixMatches_def)
  from a have "\<forall>q\<in>set (prefixes s). prefixMatches s (PSymbol p @ uKey) q \<longrightarrow>
      length (PSymbol q) \<le> length (PSymbol p)"
    by (meson not_le_imp_less)
  with a p m have "find (prefixMatches s (PSymbol p @ uKey)) (prefixes s) = Some p"
    by (intro find_longest_match) simp_all
  with L nu u show "Resolve fo toLower s symbol = (u, PScale p, True)"
    by (simp add: Resolve_def resolvePrefixes_find)
next
  assume a: "\<not> whitelisted s uKey (PSymbol p) \<and>
          (\<forall>q\<in>set (prefixes s). PSymbol q \<noteq> PSymbol p \<longrightarrow>
               \<not> prefixMatches s (PSymbol p @ uKey) q)"
  have "\<not> prefixMatches s (PSymbol p @ uKey) q" if "q \<in> set (prefixes s)" for q
  proof (cases "PSymbol q = PSymbol p")
    case True
    with a show ?thesis by (simp add: prefixMatches_def)
  next
    case False
    with a that show ?thesis by simp
  qed
  then have "find (prefixMatches s (PSymbol p @ uKey)) (prefixes s) = None"
    by (simp add: find_None_iff)
  with L nu show "Resolve fo toLower s symbol = (zeroUnit fo, f_zero fo, False)"
    by (simp add: Resolve_def resolvePrefixes_find)
qed

text \<open>
  At the registry of \<^verbatim>\<open>TestSystem_Resolve\<close>: \<open>km\<close> resolves through the prefix \<open>k\<close>, and
  \<open>mg\<close> is not found, since \<open>m\<close> is bound to \<open>m\<close> only.
\<close>

lemma resolveTestSystem_ordered: "prefixes_ordered (prefixes resolveTestSystem)"
  by (simp add: resolveTestSystem_fields prefixes_ordered_def)

theorem Resolve_prefix_unit_witness:
  "Resolve exact_float64 asciiToLower resolveTestSystem ''km''
     = (\<lparr>Symbol = ''m'', Dim = DimLength, Scale = 1\<rparr>, 1000, True) \<and>
   Resolve exact_float64 asciiToLower resolveTestSystem ''mg''
     = (zeroUnit exact_float64, 0, False) \<and>
   units resolveTestSystem ''g'' = Some \<lparr>Symbol = ''g'', Dim = DimMass, Scale = 1\<rparr> \<and>
   \<lparr>PSymbol = ''m'', PScale = 1 / 1000\<rparr> \<in> set (prefixes resolveTestSystem)"
proof -
  have pos: "Resolve exact_float64 asciiToLower resolveTestSystem ''km''
     = (\<lparr>Symbol = ''m'', Dim = DimLength, Scale = 1\<rparr>, 1000, True)"
    using Resolve_prefix_unit [of asciiToLower resolveTestSystem "''km''"
        "\<lparr>PSymbol = ''k'', PScale = 1000\<rparr>" "''m''"
        "\<lparr>Symbol = ''m'', Dim = DimLength, Scale = 1\<rparr>" exact_float64]
      resolveTestSystem_ordered
    by (simp add: resolveTestSystem_fields normalizeKey_def caseSensitive_def
        whitelisted_def prefixMatches_def)
  have neg: "Resolve exact_float64 asciiToLower resolveTestSystem ''mg''
     = (zeroUnit exact_float64, 0, False)"
    using Resolve_prefix_unit [of asciiToLower resolveTestSystem "''mg''"
        "\<lparr>PSymbol = ''m'', PScale = 1 / 1000\<rparr>" "''g''"
        "\<lparr>Symbol = ''g'', Dim = DimMass, Scale = 1\<rparr>" exact_float64]
    by (simp add: resolveTestSystem_fields normalizeKey_def caseSensitive_def
        whitelisted_def prefixMatches_def exact_float64_def)
  show ?thesis using pos neg by (simp add: resolveTestSystem_fields)
qed

text \<open>
  The claim without the amendment fails at \<open>mmSystem\<close>: the prefix \<open>m\<close> is bound to the
  unit \<open>m\<close>, and \<open>Resolve\<close> of \<open>m\<close> followed by \<open>m\<close> returns the unit \<open>mm\<close> with scale
  \<open>1.0\<close>, by the exact-match priority.
\<close>

theorem Resolve_prefix_unit_counterexample:
  "\<lparr>PSymbol = ''m'', PScale = 1 / 1000\<rparr> \<in> set (prefixes mmSystem) \<and>
   units mmSystem ''m'' = Some \<lparr>Symbol = ''m'', Dim = DimLength, Scale = 1\<rparr> \<and>
   whitelisted mmSystem ''m'' ''m'' \<and>
   Resolve exact_float64 asciiToLower mmSystem (''m'' @ ''m'')
     \<noteq> (\<lparr>Symbol = ''m'', Dim = DimLength, Scale = 1\<rparr>, 1 / 1000, True)"
  by (simp add: mmSystem_fields whitelisted_def Resolve_def normalizeKey_def caseSensitive_def
      exact_float64_def)




section \<open>Parsing\<close>

text \<open>
  C8 (as amended). Empty-input success: whenever the leading separator skip leaves
  nothing, \<open>Parse\<close> returns the zero value of the target type and the dimensionless
  dimension with no error, for every registry and target type. That is the case for the
  empty input and for every input made only of single-byte separator characters
  (configured, or the default ones) that cannot start a number.
\<close>

theorem Parse_empty_input:
  "(safeSkipSeps s (Separators (Config sys)) = [] \<longrightarrow>
      Parse fo no toLower s sys = (n_zero no, DimDimensionless, None)) \<and>
   ((\<forall>c\<in>set s. (of_char c :: nat) < 128 \<and>
        c \<in> set (separatorsOrDefault (Separators (Config sys))) \<and> \<not> isNumberStart c) \<longrightarrow>
      Parse fo no toLower s sys = (n_zero no, DimDimensionless, None))"
proof (intro conjI impI)
  assume "safeSkipSeps s (Separators (Config sys)) = []"
  then show "Parse fo no toLower s sys = (n_zero no, DimDimensionless, None)"
    by (rule Parse_skip_empty)
next
  assume a: "\<forall>c\<in>set s. (of_char c :: nat) < 128 \<and>
        c \<in> set (separatorsOrDefault (Separators (Config sys))) \<and> \<not> isNumberStart c"
  then have "\<forall>c\<in>set s. \<not> isNumberStart c \<and>
      ContainsRune (separatorsOrDefault (Separators (Config sys))) c"
    by (simp add: ContainsRune_def)
  then have "safeSkipSeps s (Separators (Config sys)) = []"
    unfolding safeSkipSeps_def by (rule skipSeps_all_separators)
  then show "Parse fo no toLower s sys = (n_zero no, DimDimensionless, None)"
    by (rule Parse_skip_empty)
qed

text \<open>At the empty input and at an input of three spaces.\<close>

theorem Parse_empty_input_witness:
  "safeSkipSeps [] (Separators (Config trickySystem)) = [] \<and>
   Parse exact_float64 float64_target asciiToLower [] trickySystem = (0, DimDimensionless, None) \<and>
   Parse exact_float64 float64_target asciiToLower ''   '' trickySystem
     = (0, DimDimensionless, None)"
proof -
  have e: "safeSkipSeps [] (Separators (Config trickySystem)) = []"
    by (simp add: safeSkipSeps_def)
  have h: "\<forall>c\<in>set ''   ''. (of_char c :: nat) < 128 \<and>
        c \<in> set (separatorsOrDefault (Separators (Config trickySystem))) \<and> \<not> isNumberStart c"
    by (simp add: trickySystem_fields separatorsOrDefault_def isNumberStart_def isDigit_def)
  show ?thesis
    using e h Parse_empty_input [of "[]" trickySystem exact_float64 float64_target asciiToLower]
      Parse_empty_input [of "''   ''" trickySystem exact_float64 float64_target asciiToLower]
    by (simp add: float64_target_def)
qed

text \<open>
  Without the amendment the claim fails: in the registry of \<^verbatim>\<open>TestParse_TrickySeparators\<close>
  the character \<open>3\<close> is a configured separator, the input \<open>3\<close> consists of separator
  characters only, and parsing it fails with the missing-unit error, since a character
  that can start a number is never skipped.
\<close>

theorem Parse_empty_input_counterexample:
  "set ''3'' \<subseteq> set (Separators (Config trickySystem)) \<and>
   Parse exact_float64 float64_target asciiToLower ''3'' trickySystem
     = (0, DimDimensionless, Some (MissingUnit ''3''))"
  by (simp add: trickySystem_fields parse_eval)

text \<open>
  C5 (as amended). The multi-part gate is the first statement of every pass of the loop:
  when the configuration disallows multi-part accumulation, a pass after the first one
  fails with the multi-part error before the number scan, the resolution and the
  dimension check of that part. So whenever the first part is accepted and input remains
  after the separator skip, \<open>Parse\<close> returns the multi-part error, whatever that input is.
\<close>

theorem multi_part_gate:
  "(s \<noteq> [] \<and> 0 < partsCount \<and> \<not> AllowMultiPart (Config sys) \<longrightarrow>
      parseLoop fo no toLower sys orig totalN detectedDim isDimSet partsCount s
        = (n_zero no, DimDimensionless, Some (MultiPartNotAllowed orig))) \<and>
   (\<not> AllowMultiPart (Config sys) \<and>
    parsePart fo no toLower sys input DimDimensionless False
      (safeSkipSeps input (Separators (Config sys))) = Inr (partN, d, s2) \<and>
    safeSkipSeps s2 (Separators (Config sys)) \<noteq> [] \<longrightarrow>
      Parse fo no toLower input sys
        = (n_zero no, DimDimensionless, Some (MultiPartNotAllowed input)))"
proof (intro conjI impI)
  assume "s \<noteq> [] \<and> 0 < partsCount \<and> \<not> AllowMultiPart (Config sys)"
  then show "parseLoop fo no toLower sys orig totalN detectedDim isDimSet partsCount s
        = (n_zero no, DimDimensionless, Some (MultiPartNotAllowed orig))"
    by (simp add: parseLoop.simps)
next
  assume a: "\<not> AllowMultiPart (Config sys) \<and>
    parsePart fo no toLower sys input DimDimensionless False
      (safeSkipSeps input (Separators (Config sys))) = Inr (partN, d, s2) \<and>
    safeSkipSeps s2 (Separators (Config sys)) \<noteq> []"
  then have "parsePart fo no toLower sys input DimDimensionless False
      (safeSkipSeps input (Separators (Config sys))) = Inr (partN, d, s2)"
    by simp
  then have ne: "safeSkipSeps input (Separators (Config sys)) \<noteq> []"
    by (rule parsePart_nonempty)
  have first: "Parse fo no toLower input sys =
      parseLoop fo no toLower sys input (n_add no (n_zero no) partN) d True 1
        (safeSkipSeps s2 (Separators (Config sys)))"
    using a ne
    by (simp add: Parse_def parseLoop.simps [of _ _ _ _ _ _ _ False])
  show "Parse fo no toLower input sys
        = (n_zero no, DimDimensionless, Some (MultiPartNotAllowed input))"
    using a by (simp add: first parseLoop.simps [of _ _ _ _ _ _ _ True])
qed

text \<open>At the input \<open>1B2x\<close> in the registry of \<^verbatim>\<open>TestParse_MultiPartRestriction\<close>.\<close>

theorem multi_part_gate_witness:
  "\<not> AllowMultiPart (Config restrictedSystem) \<and>
   parsePart exact_float64 float64_target asciiToLower restrictedSystem ''1B2x''
     DimDimensionless False (safeSkipSeps ''1B2x'' (Separators (Config restrictedSystem)))
     = Inr (1, DimStorage, ''2x'') \<and>
   safeSkipSeps ''2x'' (Separators (Config restrictedSystem)) \<noteq> [] \<and>
   parseLoop exact_float64 float64_target asciiToLower restrictedSystem ''1B2x'' 1 DimStorage True 1
     ''2x'' = (0, DimDimensionless, Some (MultiPartNotAllowed ''1B2x'')) \<and>
   Parse exact_float64 float64_target asciiToLower ''1B2x'' restrictedSystem
     = (0, DimDimensionless, Some (MultiPartNotAllowed ''1B2x''))"
proof -
  have g: "\<not> AllowMultiPart (Config restrictedSystem)"
    by (simp add: restrictedSystem_fields)
  have r: "safeSkipSeps ''2x'' (Separators (Config restrictedSystem)) \<noteq> []"
    by (simp add: restrictedSystem_fields parse_eval)
  show ?thesis
    using g r restricted_first_part
      multi_part_gate [of "''2x''" 1 restrictedSystem exact_float64 float64_target asciiToLower
        "''1B2x''" 1 DimStorage True "''1B2x''" 1 DimStorage "''2x''"]
    by (simp add: float64_target_def)
qed

text \<open>
  The claim places the gate after the resolution of the second part, so that \<open>1B2x\<close>
  would fail with the unknown-unit error for \<open>x\<close>; the code returns the multi-part error.
\<close>

theorem multi_part_gate_counterexample:
  "\<not> AllowMultiPart (Config restrictedSystem) \<and>
   Resolve exact_float64 asciiToLower restrictedSystem ''x'' = (zeroUnit exact_float64, 0, False) \<and>
   Parse exact_float64 float64_target asciiToLower ''1B2x'' restrictedSystem
     \<noteq> (0, DimDimensionless, Some (UnknownUnit ''x''))"
  by (simp add: restrictedSystem_fields parse_eval Resolve_def normalizeKey_def zeroUnit_def)



text \<open>
  C10. No range check in the integer-snap branch. When the part's value is within
  \<open>epsilon\<close> of its rounding, the conversion step returns \<^verbatim>\<open>N(rounded)\<close> and does not depend
  on the conversion back to \<^verbatim>\<open>float64\<close>: no round trip is checked, so no precision-loss
  error is raised, whatever \<^verbatim>\<open>N(rounded)\<close> is. The round-trip check runs in the other
  branch only. The same at the level of a pass of the loop.
\<close>

theorem snap_branch_no_range_check:
  "(nearInteger fo partVal \<longrightarrow>
      convertPart fo no partVal = Inr (n_of_float no (f_round fo partVal)) \<and>
      convertPart fo (no\<lparr>n_to_float := back\<rparr>) partVal = convertPart fo no partVal) \<and>
   (\<not> nearInteger fo partVal \<longrightarrow>
      convertPart fo no partVal =
        (if roundTripDiffers fo no partVal then Inl (PrecisionLoss partVal)
         else Inr (n_of_float no partVal))) \<and>
   (parseNumber fo s = (val, rest, None) \<and>
    parseUnit (safeSkipSeps rest (Separators (Config sys))) (Separators (Config sys))
      = (unitStr, s2) \<and>
    unitStr \<noteq> [] \<and> Resolve fo toLower sys unitStr = (u, scaleRatio, True) \<and>
    \<not> (isDimSet \<and> \<not> Equals detectedDim (Dim u)) \<and>
    nearInteger fo (f_mul fo (f_mul fo val scaleRatio) (Scale u)) \<longrightarrow>
      parsePart fo no toLower sys orig detectedDim isDimSet s =
        Inr (n_of_float no (f_round fo (f_mul fo (f_mul fo val scaleRatio) (Scale u))),
             if isDimSet then detectedDim else Dim u, s2))"
proof (intro conjI impI)
  assume n: "nearInteger fo partVal"
  then show "convertPart fo no partVal = Inr (n_of_float no (f_round fo partVal))"
    by (simp add: convertPart_cases)
  from n show "convertPart fo (no\<lparr>n_to_float := back\<rparr>) partVal = convertPart fo no partVal"
    by (simp add: convertPart_cases)
next
  assume "\<not> nearInteger fo partVal"
  then show "convertPart fo no partVal =
        (if roundTripDiffers fo no partVal then Inl (PrecisionLoss partVal)
         else Inr (n_of_float no partVal))"
    by (simp add: convertPart_cases)
next
  assume a: "parseNumber fo s = (val, rest, None) \<and>
    parseUnit (safeSkipSeps rest (Separators (Config sys))) (Separators (Config sys))
      = (unitStr, s2) \<and>
    unitStr \<noteq> [] \<and> Resolve fo toLower sys unitStr = (u, scaleRatio, True) \<and>
    \<not> (isDimSet \<and> \<not> Equals detectedDim (Dim u)) \<and>
    nearInteger fo (f_mul fo (f_mul fo val scaleRatio) (Scale u))"
  then have "parsePart fo no toLower sys orig detectedDim isDimSet s =
     (if isDimSet \<and> \<not> Equals detectedDim (Dim u)
      then Inl (n_zero no, DimDimensionless, Some (MixedDimensions detectedDim (Dim u)))
      else case convertPart fo no (f_mul fo (f_mul fo val scaleRatio) (Scale u)) of
             Inl err \<Rightarrow> Inl (n_zero no, if isDimSet then detectedDim else Dim u, Some err)
           | Inr partN \<Rightarrow> Inr (partN, if isDimSet then detectedDim else Dim u, s2))"
    using parsePart_resolved [of fo s val rest sys unitStr s2 toLower u scaleRatio no orig
        detectedDim isDimSet]
    by simp
  with a show "parsePart fo no toLower sys orig detectedDim isDimSet s =
        Inr (n_of_float no (f_round fo (f_mul fo (f_mul fo val scaleRatio) (Scale u))),
             if isDimSet then detectedDim else Dim u, s2)"
    by (auto simp: convertPart_cases)
qed

text \<open>
  At \<open>1e19u\<close> with an \<^verbatim>\<open>int64\<close> target whose out-of-range conversion gives the least
  \<^verbatim>\<open>int64\<close>: the value \<open>1e19\<close> exceeds the range, the round trip would differ, and the
  result is returned with no error.
\<close>

theorem snap_branch_no_range_check_witness:
  "nearInteger exact_float64 (10 ^ 19) \<and>
   roundTripDiffers exact_float64 (int64_target (\<lambda>x. - (2 ^ 63))) (10 ^ 19) \<and>
   convertPart exact_float64 (int64_target (\<lambda>x. - (2 ^ 63))) (10 ^ 19) = Inr (- (2 ^ 63)) \<and>
   parsePart exact_float64 (int64_target (\<lambda>x. - (2 ^ 63))) asciiToLower (sysU []) ''1e19u''
     DimDimensionless False ''1e19u'' = Inr (- (2 ^ 63), DimLength, []) \<and>
   Parse exact_float64 (int64_target (\<lambda>x. - (2 ^ 63))) asciiToLower ''1e19u'' (sysU [])
     = (- (2 ^ 63), DimLength, None)"
proof -
  have r: "f_round exact_float64 (10 ^ 19) = 10 ^ 19"
    by (simp add: exact_float64_def roundAway_def floor_rat_numeral_div)
  have m: "f_mul exact_float64 (f_mul exact_float64 (10 ^ 19) 1) 1 = 10 ^ 19"
    by (simp add: exact_float64_def)
  have c: "convertPart exact_float64 (int64_target (\<lambda>x. - (2 ^ 63))) (10 ^ 19) = Inr (- (2 ^ 63))"
    using snap_branch_no_range_check [of exact_float64 "10 ^ 19" "int64_target (\<lambda>x. - (2 ^ 63))"]
      big_part(4) big_out_of_range(1) r
    by simp
  have p: "parsePart exact_float64 (int64_target (\<lambda>x. - (2 ^ 63))) asciiToLower (sysU []) ''1e19u''
     DimDimensionless False ''1e19u'' = Inr (- (2 ^ 63), DimLength, [])"
    using snap_branch_no_range_check [of exact_float64 "10 ^ 19" "int64_target (\<lambda>x. - (2 ^ 63))"
        "\<lambda>n. 0" "''1e19u''" "10 ^ 19" "''u''" "sysU []" "''u''" "[]" asciiToLower
        "\<lparr>Symbol = ''u'', Dim = DimLength, Scale = 1\<rparr>" 1 False DimDimensionless "''1e19u''"]
      big_part big_out_of_range(1) r m
    by simp
  have s0: "safeSkipSeps ''1e19u'' (Separators (Config (sysU []))) = ''1e19u''"
    "safeSkipSeps [] (Separators (Config (sysU []))) = []"
    by (simp_all add: sysU_fields parse_eval)
  have "Parse exact_float64 (int64_target (\<lambda>x. - (2 ^ 63))) asciiToLower ''1e19u'' (sysU [])
     = (n_add (int64_target (\<lambda>x. - (2 ^ 63))) (n_zero (int64_target (\<lambda>x. - (2 ^ 63))))
          (- (2 ^ 63)), DimLength, None)"
    using p s0 by (intro Parse_single_part) simp_all
  then have "Parse exact_float64 (int64_target (\<lambda>x. - (2 ^ 63))) asciiToLower ''1e19u'' (sysU [])
     = (- (2 ^ 63), DimLength, None)"
    by (simp add: int64_target_def)
  with c p big_part(4) big_out_of_range(2) show ?thesis by simp
qed




section \<open>Registration\<close>



end
